theory Spec2Isabelle
  imports Main
begin

section \<open>Package cfginit: the template of prototool.yaml\<close>

text \<open>
  The Go source parses one template text with two kinds of nodes: literal text and the
  field actions \<^verbatim>\<open>{{.V}}\<close> and \<^verbatim>\<open>{{.ProtocVersion}}\<close>.
\<close>

datatype node = TextNode string | FieldNode string

text \<open>The struct \<^verbatim>\<open>tmplData\<close>.\<close>

record tmplData =
  V :: string
  ProtocVersion :: string

datatype exec_error = CantEvaluateField string

definition newline :: char where
  "newline = CHR 0x0A"

text \<open>
  The template text of \<^verbatim>\<open>tmpl\<close>, one entry for each of its 162 lines (the text
  between the back quotes, split at the line feeds; the last line has no line feed after it).
\<close>

definition tmpl_lines :: "node list list" where
  \<open>tmpl_lines =
  [[TextNode ''# Paths to exclude when searching for Protobuf files.''],
   [FieldNode ''V'', TextNode ''excludes:''],
   [FieldNode ''V'', TextNode ''  - path/to/a''],
   [FieldNode ''V'', TextNode ''  - path/to/b/file.proto''],
   [],
   [TextNode ''# Protoc directives.''],
   [TextNode ''protoc:''],
   [TextNode ''  # The Protobuf version to use from https://github.com/protocolbuffers/protobuf/releases.''],
   [TextNode ''  # By default use '', FieldNode ''ProtocVersion'', TextNode ''.''],
   [TextNode ''  # You probably want to set this to make your builds completely reproducible.''],
   [TextNode ''  version: '', FieldNode ''ProtocVersion''],
   [],
   [TextNode ''  # Additional paths to include with -I to protoc.''],
   [TextNode ''  # By default, the directory of the config file is included,''],
   [TextNode ''  # or the current directory if there is no config file.''],
   [TextNode ''  '', FieldNode ''V'', TextNode ''includes:''],
   [TextNode ''  '', FieldNode ''V'', TextNode ''  - ../../vendor/github.com/grpc-ecosystem/grpc-gateway/third_party/googleapis''],
   [],
   [],
   [TextNode ''  # If not set, compile will fail if there are unused imports.''],
   [TextNode ''  # Setting this will ignore unused imports.''],
   [TextNode ''  '', FieldNode ''V'', TextNode ''allow_unused_imports: true''],
   [],
   [TextNode ''# Create directives.''],
   [FieldNode ''V'', TextNode ''create:''],
   [TextNode ''  # List of mappings from relative directory to base package.''],
   [TextNode ''  # This affects how packages are generated with create.''],
   [TextNode ''  '', FieldNode ''V'', TextNode ''packages:''],
   [TextNode ''    # This means that a file created "foo.proto" in the current directory will have package "bar".''],
   [TextNode ''    # A file created "a/b/foo.proto" will have package "bar.a.b".''],
   [TextNode ''    '', FieldNode ''V'', TextNode ''- directory: .''],
   [TextNode ''    '', FieldNode ''V'', TextNode ''  name: bar''],
   [TextNode ''    # This means that a file created "idl/code.uber/a/b/c.proto" will have package "uber.a.b".''],
   [TextNode ''    '', FieldNode ''V'', TextNode ''- directory: idl/code.uber''],
   [TextNode ''    '', FieldNode ''V'', TextNode ''  name: uber''],
   [],
   [TextNode ''# Lint directives.''],
   [FieldNode ''V'', TextNode ''lint:''],
   [TextNode ''  # The lint group to use.''],
   [TextNode ''  # The default group is the "default" lint group, which is equal to the "uber1" lint group.''],
   [TextNode ''  # Run prototool lint --list-all-lint-groups to see all available lint groups.''],
   [TextNode ''  # Run prototool lint --list-lint-group GROUP to list the linters in the given lint group.''],
   [TextNode ''  # Setting this value will result in lint.rules.no_default being ignored.''],
   [FieldNode ''V'', TextNode ''  group: uber2''],
   [],
   [TextNode ''  # Linter files to ignore.''],
   [FieldNode ''V'', TextNode ''  ignores:''],
   [FieldNode ''V'', TextNode ''    - id: RPC_NAMES_CAMEL_CASE''],
   [FieldNode ''V'', TextNode ''      files:''],
   [FieldNode ''V'', TextNode ''        - path/to/foo.proto''],
   [FieldNode ''V'', TextNode ''        - path/to/bar.proto''],
   [FieldNode ''V'', TextNode ''    - id: SYNTAX_PROTO3''],
   [FieldNode ''V'', TextNode ''      files:''],
   [FieldNode ''V'', TextNode ''        - path/to/foo.proto''],
   [],
   [TextNode ''  # Linter rules.''],
   [TextNode ''  # Run prototool lint --list-all-linters to see all available linters.''],
   [TextNode ''  # Run prototool lint --list-linters to see the currently configured linters.''],
   [FieldNode ''V'', TextNode ''  rules:''],
   [TextNode ''    # Determines whether or not to include the default set of linters.''],
   [TextNode ''    # This allows all linters to be turned off except those explicitly specified in add.''],
   [TextNode ''    # This value is ignored if lint.group is set.''],
   [FieldNode ''V'', TextNode ''    no_default: true''],
   [],
   [TextNode ''    # The specific linters to add.''],
   [FieldNode ''V'', TextNode ''    add:''],
   [FieldNode ''V'', TextNode ''      - ENUM_NAMES_CAMEL_CASE''],
   [FieldNode ''V'', TextNode ''      - ENUM_NAMES_CAPITALIZED''],
   [],
   [TextNode ''    # The specific linters to remove.''],
   [FieldNode ''V'', TextNode ''    remove:''],
   [FieldNode ''V'', TextNode ''      - ENUM_NAMES_CAMEL_CASE''],
   [],
   [TextNode ''  # The path to the file header for all Protobuf files.''],
   [TextNode ''  # If this is set and the FILE_HEADER linter is turned on, files will''],
   [TextNode ''  # be checked to begin with the contents of this file, and format --fix''],
   [TextNode ''  # will place this header before the syntax declaration. Note that''],
   [TextNode ''  # format --fix will delete anything before the syntax declaration''],
   [TextNode ''  # if this is set.''],
   [TextNode ''  #''],
   [TextNode ''  # If is_commented is set, this file is assumed to already have comments''],
   [TextNode ''  # and will be added directly. If is_commented is not set, "// " will be''],
   [TextNode ''  # added before every line.''],
   [FieldNode ''V'', TextNode ''  file_header:''],
   [FieldNode ''V'', TextNode ''    path: path/to/protobuf_file_header.txt''],
   [FieldNode ''V'', TextNode ''    is_commented: true''],
   [],
   [TextNode ''# Code generation directives.''],
   [FieldNode ''V'', TextNode ''generate:''],
   [TextNode ''  # Options that will apply to all plugins of type go and gogo.''],
   [FieldNode ''V'', TextNode ''  go_options:''],
   [TextNode ''    # The base import path. This should be the go path of the prototool.yaml file.''],
   [TextNode ''    # This is required if you have any go plugins.''],
   [FieldNode ''V'', TextNode ''    import_path: uber/foo/bar.git/idl/uber''],
   [],
   [TextNode ''    # Extra modifiers to include with Mfile=package.''],
   [FieldNode ''V'', TextNode ''    extra_modifiers:''],
   [FieldNode ''V'', TextNode ''      google/api/annotations.proto: google.golang.org/genproto/googleapis/api/annotations''],
   [FieldNode ''V'', TextNode ''      google/api/http.proto: google.golang.org/genproto/googleapis/api/annotations''],
   [],
   [TextNode ''  # The list of plugins.''],
   [FieldNode ''V'', TextNode ''  plugins:''],
   [TextNode ''      # The plugin name. This will go to protoc with --name_out, so it either needs''],
   [TextNode ''      # to be a built-in name (like java), or a plugin name with a binary''],
   [TextNode ''      # protoc-gen-name.''],
   [FieldNode ''V'', TextNode ''    - name: gogo''],
   [],
   [TextNode ''      # The type, if any. Valid types are go, gogo.''],
   [TextNode ''      # Use go if your plugin is a standard Golang plugin''],
   [TextNode ''      # that uses github.com/golang/protobuf imports, use gogo''],
   [TextNode ''      # if it uses github.com/gogo/protobuf imports. For protoc-gen-go''],
   [TextNode ''      # use go, For protoc-gen-gogo, protoc-gen-gogoslick, etc, use gogo.''],
   [FieldNode ''V'', TextNode ''      type: gogo''],
   [],
   [TextNode ''      # Extra flags to specify.''],
   [TextNode ''      # The only flag you will generally set is plugins=grpc for Golang.''],
   [TextNode ''      # The Mfile=package flags are automatically set.''],
   [TextNode ''      # ** Otherwise, generally do not set this unless you know what you are doing. **''],
   [FieldNode ''V'', TextNode ''      flags: plugins=grpc''],
   [],
   [TextNode ''      # The path to output generated files to.''],
   [TextNode ''      # If the directory does not exist, it will be created when running generation.''],
   [TextNode ''      # This needs to be a relative path.''],
   [FieldNode ''V'', TextNode ''      output: ../../.gen/proto/go''],
   [],
   [TextNode ''      # Optional override for the plugin path. For example, if you set set path to''],
   [TextNode ''      # /usr/local/bin/gogo_plugin", prototool will add the''],
   [TextNode ''      # "--plugin=protoc-gen-gogo=/usr/local/bin/gogo_plugin" flag to protoc calls.''],
   [TextNode ''      # If set to "gogo_plugin", prototool will search your path for "gogo_plugin",.''],
   [TextNode ''      # and fail if "gogo_plugin" cannot be found.''],
   [FieldNode ''V'', TextNode ''      path: gogo_plugin''],
   [],
   [FieldNode ''V'', TextNode ''    - name: yarpc-go''],
   [FieldNode ''V'', TextNode ''      type: gogo''],
   [FieldNode ''V'', TextNode ''      output: ../../.gen/proto/go''],
   [],
   [FieldNode ''V'', TextNode ''    - name: grpc-gateway''],
   [FieldNode ''V'', TextNode ''      type: go''],
   [FieldNode ''V'', TextNode ''      output: ../../.gen/proto/go''],
   [],
   [FieldNode ''V'', TextNode ''    - name: java''],
   [FieldNode ''V'', TextNode ''      output: ../../.gen/proto/java''],
   [],
   [TextNode ''      # Optional file suffix for plugins that output a single file as opposed''],
   [TextNode ''      # to writing a set of files to a directory. This is only valid in two''],
   [TextNode ''      # known cases:''],
   [TextNode ''      # - For the java plugin, set this to "jar" to produce jars''],
   [TextNode ''      #   https://developers.google.com/protocol-buffers/docs/reference/java-generated#invocation''],
   [TextNode ''      # - For the descriptor_set plugin, this is required as using descriptor_set''],
   [TextNode ''      #   requires a file to be given instead of a directory.''],
   [FieldNode ''V'', TextNode ''      file_suffix: jar''],
   [],
   [TextNode ''      # descriptor_set is special, and uses the --descriptor_set_out flag on protoc.''],
   [TextNode ''      # file_suffix is required, and the options include_imports and include_source_info''],
   [TextNode ''      # can be optionally set to add the flags --include_imports and --include_source-info.''],
   [TextNode ''      # The include_imports and include_source_info options are not valid for any''],
   [TextNode ''      # other plugin name.''],
   [FieldNode ''V'', TextNode ''    - name: descriptor_set''],
   [FieldNode ''V'', TextNode ''      output: ../../.gen/proto/descriptor''],
   [FieldNode ''V'', TextNode ''      file_suffix: bin''],
   [FieldNode ''V'', TextNode ''      include_imports: true''],
   [FieldNode ''V'', TextNode ''      include_source_info: true'']]\<close>

text \<open>The parsed template: the lines with a line feed between two consecutive ones.\<close>

fun join_nodes :: "node list list \<Rightarrow> node list" where
  "join_nodes [] = []"
| "join_nodes [l] = l"
| "join_nodes (l # ls) = l @ TextNode [newline] # join_nodes ls"

definition tmpl :: "node list" where
  "tmpl = join_nodes tmpl_lines"

text \<open>
  The template holds no \<^verbatim>\<open><\<close>, so the escaper of html/template stays in the HTML text
  context and pipes every action through its HTML escaper, which replaces the bytes of
  \<^verbatim>\<open>htmlReplacementTable\<close>: NUL by U+FFFD (in UTF-8), and the five characters that
  are special in HTML, and the plus sign, by character references.
\<close>

definition htmlReplacementTable :: "char \<Rightarrow> string option" where
  \<open>htmlReplacementTable c =
     (if c = CHR 0x00 then Some [CHR 0xEF, CHR 0xBF, CHR 0xBD]
      else if c = CHR 0x22 then Some ''&#34;''
      else if c = CHR ''&'' then Some ''&amp;''
      else if c = CHR 0x27 then Some ''&#39;''
      else if c = CHR ''+'' then Some ''&#43;''
      else if c = CHR ''<'' then Some ''&lt;''
      else if c = CHR ''>'' then Some ''&gt;''
      else None)\<close>

fun htmlEscaper :: "string \<Rightarrow> string" where
  "htmlEscaper [] = []"
| "htmlEscaper (c # s) =
     (case htmlReplacementTable c of Some r \<Rightarrow> r @ htmlEscaper s | None \<Rightarrow> c # htmlEscaper s)"

text \<open>Field access on \<^verbatim>\<open>*tmplData\<close>: a name that is not a field is an execution error.\<close>

definition evalField :: "tmplData \<Rightarrow> string \<Rightarrow> exec_error + string" where
  "evalField d name =
     (if name = ''V'' then Inr (V d)
      else if name = ''ProtocVersion'' then Inr (ProtocVersion d)
      else Inl (CantEvaluateField name))"

text \<open>\<^verbatim>\<open>Execute\<close> walks the nodes in order and stops at the first error.\<close>

fun Execute :: "node list \<Rightarrow> tmplData \<Rightarrow> exec_error + string" where
  "Execute [] d = Inr []"
| "Execute (TextNode s # ns) d =
     (case Execute ns d of Inl e \<Rightarrow> Inl e | Inr out \<Rightarrow> Inr (s @ out))"
| "Execute (FieldNode f # ns) d =
     (case evalField d f of
        Inl e \<Rightarrow> Inl e
      | Inr v \<Rightarrow> (case Execute ns d of Inl e \<Rightarrow> Inl e | Inr out \<Rightarrow> Inr (htmlEscaper v @ out)))"

definition Generate :: "string \<Rightarrow> bool \<Rightarrow> exec_error + string" where
  "Generate protocVersion uncomment =
     (let d = \<lparr>V = [], ProtocVersion = protocVersion\<rparr>;
          d = (if \<not> uncomment then d\<lparr>V := ''#''\<rparr> else d)
      in Execute tmpl d)"

text \<open>Splitting the output at its line feeds, and the inverse.\<close>

fun join_lines :: "string list \<Rightarrow> string" where
  "join_lines [] = []"
| "join_lines [l] = l"
| "join_lines (l # ls) = l @ newline # join_lines ls"

fun lines_of :: "string \<Rightarrow> string list" where
  "lines_of [] = [[]]"
| "lines_of (c # s) =
     (if c = newline then [] # lines_of s
      else (case lines_of s of [] \<Rightarrow> [[c]] | l # ls \<Rightarrow> (c # l) # ls))"

text \<open>The data \<^verbatim>\<open>Generate\<close> passes to the template.\<close>

definition generate_data :: "string \<Rightarrow> bool \<Rightarrow> tmplData" where
  "generate_data protocVersion uncomment =
     \<lparr>V = (if uncomment then [] else ''#''), ProtocVersion = protocVersion\<rparr>"

text \<open>What executing one line of the template writes (nothing when the execution fails).\<close>

definition executed_line :: "tmplData \<Rightarrow> node list \<Rightarrow> string" where
  "executed_line d l = (case Execute l d of Inl e \<Rightarrow> [] | Inr s \<Rightarrow> s)"

definition executed_lines :: "string \<Rightarrow> bool \<Rightarrow> string list" where
  "executed_lines protocVersion uncomment =
     map (executed_line (generate_data protocVersion uncomment)) tmpl_lines"

text \<open>A line is commented out when its first character after the indentation is \<^verbatim>\<open>#\<close>.\<close>

definition commented :: "string \<Rightarrow> bool" where
  "commented s = (case dropWhile (\<lambda>c. c = CHR '' '') s of [] \<Rightarrow> False | c # r \<Rightarrow> c = CHR ''#'')"

text \<open>The nodes of a line whose fields all exist in \<^verbatim>\<open>tmplData\<close>.\<close>

definition known_fields :: "node list \<Rightarrow> bool" where
  "known_fields l =
     list_all (\<lambda>n. case n of TextNode s \<Rightarrow> True | FieldNode f \<Rightarrow> f = ''V'' \<or> f = ''ProtocVersion'') l"

text \<open>
  The text of a template line with \<open>v\<close> in the place of every \<^verbatim>\<open>{{.V}}\<close> and
  \<open>pv\<close> in the place of every \<^verbatim>\<open>{{.ProtocVersion}}\<close>: the line the generated
  configuration is to hold, stated without \<^verbatim>\<open>Execute\<close>.
\<close>

fun substituted_node :: "string \<Rightarrow> string \<Rightarrow> node \<Rightarrow> string" where
  "substituted_node v pv (TextNode s) = s"
| "substituted_node v pv (FieldNode f) =
     (if f = ''V'' then v else if f = ''ProtocVersion'' then pv else [])"

definition substituted :: "string \<Rightarrow> string \<Rightarrow> node list \<Rightarrow> string" where
  "substituted v pv l = concat (map (substituted_node v pv) l)"

text \<open>
  The lines of the template with \<open>v\<close> for \<^verbatim>\<open>{{.V}}\<close> and the escaped protoc version
  for \<^verbatim>\<open>{{.ProtocVersion}}\<close>.
\<close>

definition substituted_lines :: "string \<Rightarrow> string \<Rightarrow> string list" where
  "substituted_lines v protocVersion = map (substituted v (htmlEscaper protocVersion)) tmpl_lines"

text \<open>
  The shapes of the template's lines: a setting behind \<^verbatim>\<open>{{.V}}\<close>, which comes first
  or right after the indentation, or a line without \<^verbatim>\<open>{{.V}}\<close>.
\<close>

fun setting_line :: "node list \<Rightarrow> bool" where
  "setting_line [FieldNode f, TextNode t] = (f = ''V'' \<and> \<not> commented t \<and> newline \<notin> set t)"
| "setting_line [TextNode ind, FieldNode f, TextNode t] =
     (ind \<noteq> [] \<and> list_all (\<lambda>c. c = CHR '' '') ind \<and> f = ''V'' \<and> \<not> commented t \<and>
      newline \<notin> set t)"
| "setting_line l = False"

fun fixed_line :: "node list \<Rightarrow> bool" where
  "fixed_line [] = True"
| "fixed_line [TextNode t] = (t = ''protoc:'' \<or> commented t)"
| "fixed_line [TextNode t, FieldNode f] = (t = ''  version: '' \<and> f = ''ProtocVersion'')"
| "fixed_line [TextNode t, FieldNode f, TextNode t'] = (commented t \<and> f = ''ProtocVersion'')"
| "fixed_line l = False"

definition digit :: "char \<Rightarrow> bool" where
  "digit c = (c \<in> set ''0123456789'')"

text \<open>
  The strings the regular expression \<^verbatim>\<open>^\d+\.\d+\.\d+$\<close> matches: a first run of
  digits, a dot, a second run of digits, a dot, and digits to the end, no run empty.
\<close>

definition eat_digits :: "string \<Rightarrow> string option" where
  "eat_digits s = (if takeWhile digit s = [] then None else Some (dropWhile digit s))"

definition eat_dot :: "string \<Rightarrow> string option" where
  "eat_dot s = (case s of [] \<Rightarrow> None | c # r \<Rightarrow> if c = CHR ''.'' then Some r else None)"

definition version_string :: "string \<Rightarrow> bool" where
  "version_string s =
     (case Option.bind (Option.bind (Option.bind (eat_digits s) eat_dot) eat_digits) eat_dot of
        None \<Rightarrow> False
      | Some c \<Rightarrow> c \<noteq> [] \<and> list_all digit c)"

section \<open>Package cmd: the command templates\<close>

text \<open>
  The fields of the struct \<^verbatim>\<open>flags\<close> that the commands read. The fields \<^verbatim>\<open>fix\<close>
  and \<^verbatim>\<open>method\<close> carry a prime, their names being reserved here.
\<close>

record flags =
  address :: string
  allowBetaDeps :: bool
  cachePath :: string
  callTimeout :: string
  configData :: string
  connectTimeout :: string
  data :: string
  debug :: bool
  diffLintGroups :: string
  diffMode :: bool
  disableFormat :: bool
  disableLint :: bool
  dryRun :: bool
  errorFormat :: string
  fix' :: bool
  gitBranch :: string
  gitTag :: string
  headers :: "string list"
  includeBeta :: bool
  json :: bool
  keepaliveTime :: string
  lintMode :: bool
  listAllLintGroups :: bool
  listAllLinters :: bool
  listLintGroup :: string
  listLinters :: bool
  method' :: string
  name :: string
  overwrite :: bool
  pkg :: string
  protocBinPath :: string
  protocURL :: string
  protocWKTPath :: string
  stdin :: bool
  uncomment :: bool

text \<open>The methods of \<^verbatim>\<open>flags\<close> that bind one command-line flag each.\<close>

datatype flag_binding =
    bindAddress | bindAllowBetaDeps | bindCachePath | bindCallTimeout | bindConfigData
  | bindConnectTimeout | bindData | bindDiffLintGroups | bindDiffMode | bindDisableFormat
  | bindDisableLint | bindDryRun | bindErrorFormat | bindFix | bindGitBranch | bindGitTag
  | bindHeaders | bindIncludeBeta | bindJSON | bindKeepaliveTime | bindLintMode
  | bindListAllLintGroups | bindListAllLinters | bindListLintGroup | bindListLinters
  | bindMethod | bindName | bindOverwrite | bindPackage | bindProtocBinPath | bindProtocURL
  | bindProtocWKTPath | bindStdin | bindUncomment

text \<open>
  The positional-argument validators of cobra that the templates use, and what each
  accepts: \<^verbatim>\<open>MaximumNArgs(n)\<close> at most \<open>n\<close> arguments, \<^verbatim>\<open>MinimumNArgs(n)\<close>
  at least \<open>n\<close>, \<^verbatim>\<open>NoArgs\<close> none.
\<close>

datatype PositionalArgs = MaximumNArgs nat | MinimumNArgs nat | NoArgs

fun accepts :: "PositionalArgs \<Rightarrow> string list \<Rightarrow> bool" where
  "accepts (MaximumNArgs n) args = (length args \<le> n)"
| "accepts (MinimumNArgs n) args = (n \<le> length args)"
| "accepts NoArgs args = (length args = 0)"

text \<open>
  The call a command makes on its \<^verbatim>\<open>exec.Runner\<close>: the method and the arguments
  it passes.
\<close>

datatype runner_call =
    RunnerAll "string list" bool bool bool
  | RunnerBreakCheck "string list" string string bool bool
  | RunnerCacheUpdate "string list"
  | RunnerCacheDelete
  | RunnerCompile "string list" bool
  | RunnerCreate "string list" string
  | RunnerFiles "string list"
  | RunnerFormat "string list" bool bool bool bool
  | RunnerGen "string list" bool
  | RunnerGRPC "string list" "string list" string string string string string string bool
  | RunnerInspectPackages "string list"
  | RunnerInspectPackageDeps "string list" string
  | RunnerInspectPackageImporters "string list" string
  | RunnerInit "string list" bool
  | RunnerLint "string list" bool bool bool string string
  | RunnerVersion

text \<open>The positional arguments a call hands to the runner, if it hands any.\<close>

fun call_args :: "runner_call \<Rightarrow> string list option" where
  "call_args (RunnerAll args a b c) = Some args"
| "call_args (RunnerBreakCheck args a b c d) = Some args"
| "call_args (RunnerCacheUpdate args) = Some args"
| "call_args RunnerCacheDelete = None"
| "call_args (RunnerCompile args a) = Some args"
| "call_args (RunnerCreate args a) = Some args"
| "call_args (RunnerFiles args) = Some args"
| "call_args (RunnerFormat args a b c d) = Some args"
| "call_args (RunnerGen args a) = Some args"
| "call_args (RunnerGRPC args a b c d e f g h) = Some args"
| "call_args (RunnerInspectPackages args) = Some args"
| "call_args (RunnerInspectPackageDeps args a) = Some args"
| "call_args (RunnerInspectPackageImporters args a) = Some args"
| "call_args (RunnerInit args a) = Some args"
| "call_args (RunnerLint args a b c d e) = Some args"
| "call_args RunnerVersion = None"

text \<open>
  The struct \<^verbatim>\<open>cmdTemplate\<close>, without its help texts \<^verbatim>\<open>Short\<close> and
  \<^verbatim>\<open>Long\<close>. \<^verbatim>\<open>BindFlags\<close> lists the bindings in the order the function makes
  them, and is \<open>None\<close> where the template leaves the field nil.
\<close>

record cmdTemplate =
  Use :: string
  Args :: PositionalArgs
  Run :: "string list \<Rightarrow> flags \<Rightarrow> runner_call"
  BindFlags :: "flag_binding list option"

definition allCmdTemplate :: cmdTemplate where
  "allCmdTemplate = \<lparr>
     Use = ''all [dirOrFile]'',
     Args = MaximumNArgs 1,
     Run = (\<lambda>args fl. RunnerAll args (disableFormat fl) (disableLint fl) (fix' fl)),
     BindFlags = Some [bindCachePath, bindConfigData, bindDisableFormat, bindDisableLint,
       bindErrorFormat, bindJSON, bindFix, bindProtocURL, bindProtocBinPath,
       bindProtocWKTPath]\<rparr>"

definition breakCheckCmdTemplate :: cmdTemplate where
  "breakCheckCmdTemplate = \<lparr>
     Use = ''check [dir]'',
     Args = MaximumNArgs 1,
     Run = (\<lambda>args fl. RunnerBreakCheck args (gitBranch fl) (gitTag fl) (includeBeta fl)
       (allowBetaDeps fl)),
     BindFlags = Some [bindAllowBetaDeps, bindCachePath, bindConfigData, bindGitBranch,
       bindGitTag, bindJSON, bindIncludeBeta, bindProtocURL, bindProtocBinPath,
       bindProtocWKTPath]\<rparr>"

definition cacheUpdateCmdTemplate :: cmdTemplate where
  "cacheUpdateCmdTemplate = \<lparr>
     Use = ''update [dirOrFile]'',
     Args = MaximumNArgs 1,
     Run = (\<lambda>args fl. RunnerCacheUpdate args),
     BindFlags = Some [bindCachePath, bindConfigData]\<rparr>"

definition cacheDeleteCmdTemplate :: cmdTemplate where
  "cacheDeleteCmdTemplate = \<lparr>
     Use = ''delete'',
     Args = NoArgs,
     Run = (\<lambda>args fl. RunnerCacheDelete),
     BindFlags = None\<rparr>"

definition compileCmdTemplate :: cmdTemplate where
  "compileCmdTemplate = \<lparr>
     Use = ''compile [dirOrFile]'',
     Args = MaximumNArgs 1,
     Run = (\<lambda>args fl. RunnerCompile args (dryRun fl)),
     BindFlags = Some [bindCachePath, bindConfigData, bindDryRun, bindErrorFormat, bindJSON,
       bindProtocURL, bindProtocBinPath, bindProtocWKTPath]\<rparr>"

definition createCmdTemplate :: cmdTemplate where
  "createCmdTemplate = \<lparr>
     Use = ''create files...'',
     Args = MinimumNArgs 1,
     Run = (\<lambda>args fl. RunnerCreate args (pkg fl)),
     BindFlags = Some [bindConfigData, bindPackage]\<rparr>"

definition filesCmdTemplate :: cmdTemplate where
  "filesCmdTemplate = \<lparr>
     Use = ''files [dirOrFile]'',
     Args = MaximumNArgs 1,
     Run = (\<lambda>args fl. RunnerFiles args),
     BindFlags = Some [bindConfigData]\<rparr>"

definition formatCmdTemplate :: cmdTemplate where
  "formatCmdTemplate = \<lparr>
     Use = ''format [dirOrFile]'',
     Args = MaximumNArgs 1,
     Run = (\<lambda>args fl. RunnerFormat args (overwrite fl) (diffMode fl) (lintMode fl) (fix' fl)),
     BindFlags = Some [bindCachePath, bindConfigData, bindDiffMode, bindErrorFormat, bindJSON,
       bindLintMode, bindOverwrite, bindFix, bindProtocURL, bindProtocBinPath,
       bindProtocWKTPath]\<rparr>"

definition generateCmdTemplate :: cmdTemplate where
  "generateCmdTemplate = \<lparr>
     Use = ''generate [dirOrFile]'',
     Args = MaximumNArgs 1,
     Run = (\<lambda>args fl. RunnerGen args (dryRun fl)),
     BindFlags = Some [bindCachePath, bindConfigData, bindDryRun, bindErrorFormat, bindJSON,
       bindProtocURL, bindProtocBinPath, bindProtocWKTPath]\<rparr>"

definition grpcCmdTemplate :: cmdTemplate where
  "grpcCmdTemplate = \<lparr>
     Use = ''grpc [dirOrFile]'',
     Args = MaximumNArgs 1,
     Run = (\<lambda>args fl. RunnerGRPC args (headers fl) (address fl) (method' fl) (data fl)
       (callTimeout fl) (connectTimeout fl) (keepaliveTime fl) (stdin fl)),
     BindFlags = Some [bindCachePath, bindConfigData, bindAddress, bindCallTimeout,
       bindConnectTimeout, bindData, bindErrorFormat, bindHeaders, bindKeepaliveTime,
       bindMethod, bindStdin, bindProtocURL, bindProtocBinPath, bindProtocWKTPath]\<rparr>"

definition inspectPackagesCmdTemplate :: cmdTemplate where
  "inspectPackagesCmdTemplate = \<lparr>
     Use = ''packages [dirOrFile]'',
     Args = MaximumNArgs 1,
     Run = (\<lambda>args fl. RunnerInspectPackages args),
     BindFlags = Some [bindCachePath, bindConfigData, bindErrorFormat, bindProtocURL,
       bindProtocBinPath, bindProtocWKTPath]\<rparr>"

definition inspectPackageDepsCmdTemplate :: cmdTemplate where
  "inspectPackageDepsCmdTemplate = \<lparr>
     Use = ''package-deps [dirOrFile]'',
     Args = MaximumNArgs 1,
     Run = (\<lambda>args fl. RunnerInspectPackageDeps args (name fl)),
     BindFlags = Some [bindCachePath, bindConfigData, bindErrorFormat, bindName,
       bindProtocURL, bindProtocBinPath, bindProtocWKTPath]\<rparr>"

definition inspectPackageImportersCmdTemplate :: cmdTemplate where
  "inspectPackageImportersCmdTemplate = \<lparr>
     Use = ''package-importers [dirOrFile]'',
     Args = MaximumNArgs 1,
     Run = (\<lambda>args fl. RunnerInspectPackageImporters args (name fl)),
     BindFlags = Some [bindCachePath, bindConfigData, bindErrorFormat, bindName,
       bindProtocURL, bindProtocBinPath, bindProtocWKTPath]\<rparr>"

definition configInitCmdTemplate :: cmdTemplate where
  "configInitCmdTemplate = \<lparr>
     Use = ''init [dirPath]'',
     Args = MaximumNArgs 1,
     Run = (\<lambda>args fl. RunnerInit args (uncomment fl)),
     BindFlags = Some [bindUncomment]\<rparr>"

definition lintCmdTemplate :: cmdTemplate where
  "lintCmdTemplate = \<lparr>
     Use = ''lint [dirOrFile]'',
     Args = MaximumNArgs 1,
     Run = (\<lambda>args fl. RunnerLint args (listAllLinters fl) (listLinters fl)
       (listAllLintGroups fl) (listLintGroup fl) (diffLintGroups fl)),
     BindFlags = Some [bindCachePath, bindConfigData, bindErrorFormat, bindJSON,
       bindListAllLinters, bindListLinters, bindListAllLintGroups, bindListLintGroup,
       bindDiffLintGroups, bindProtocURL, bindProtocBinPath, bindProtocWKTPath]\<rparr>"

definition versionCmdTemplate :: cmdTemplate where
  "versionCmdTemplate = \<lparr>
     Use = ''version'',
     Args = NoArgs,
     Run = (\<lambda>args fl. RunnerVersion),
     BindFlags = Some [bindJSON]\<rparr>"

text \<open>The sixteen templates, in the order of the source.\<close>

definition cmdTemplates :: "cmdTemplate list" where
  "cmdTemplates =
     [allCmdTemplate, breakCheckCmdTemplate, cacheUpdateCmdTemplate, cacheDeleteCmdTemplate,
      compileCmdTemplate, createCmdTemplate, filesCmdTemplate, formatCmdTemplate,
      generateCmdTemplate, grpcCmdTemplate, inspectPackagesCmdTemplate,
      inspectPackageDepsCmdTemplate, inspectPackageImportersCmdTemplate,
      configInitCmdTemplate, lintCmdTemplate, versionCmdTemplate]"

text \<open>The templates whose validator is \<^verbatim>\<open>cobra.MaximumNArgs(1)\<close>, and the others.\<close>

definition optionalArgCmdTemplates :: "cmdTemplate list" where
  "optionalArgCmdTemplates = filter (\<lambda>t. Args t = MaximumNArgs 1) cmdTemplates"

definition otherCmdTemplates :: "cmdTemplate list" where
  "otherCmdTemplates = filter (\<lambda>t. Args t \<noteq> MaximumNArgs 1) cmdTemplates"

text \<open>
  The part of the \<^verbatim>\<open>cobra.Command\<close> that \<^verbatim>\<open>Build\<close> fills in from a template:
  the usage line, the validator of the positional arguments, and the flags bound to the
  command (none when \<^verbatim>\<open>BindFlags\<close> is nil). Its \<^verbatim>\<open>Run\<close> hands the arguments to
  \<^verbatim>\<open>checkCmd\<close> with the template's \<^verbatim>\<open>Run\<close>.
\<close>

record command =
  commandUse :: string
  commandArgs :: PositionalArgs
  commandFlags :: "flag_binding list"

definition Build :: "cmdTemplate \<Rightarrow> command" where
  "Build c = \<lparr>
     commandUse = Use c,
     commandArgs = Args c,
     commandFlags = (case BindFlags c of None \<Rightarrow> [] | Some bs \<Rightarrow> bs)\<rparr>"

subsection \<open>The runner of a command\<close>

datatype Level = InfoLevel | DebugLevel

text \<open>
  The options of package exec that \<^verbatim>\<open>getRunner\<close> passes to \<^verbatim>\<open>exec.NewRunner\<close>.
  The logger is kept as its level. The runner is kept as what it was created from: the
  working directory and the options, in order.
\<close>

datatype RunnerOption =
    RunnerWithLogger Level
  | RunnerWithCachePath string
  | RunnerWithConfigData string
  | RunnerWithJSON
  | RunnerWithProtocBinPath string
  | RunnerWithProtocWKTPath string
  | RunnerWithErrorFormat string
  | RunnerWithProtocURL string
  | RunnerWithDevelMode

record runner =
  workDirPath :: string
  runnerOptions :: "RunnerOption list"

definition NewRunner :: "string \<Rightarrow> RunnerOption list \<Rightarrow> runner" where
  "NewRunner dir opts = \<lparr>workDirPath = dir, runnerOptions = opts\<rparr>"

definition getLogger :: "bool \<Rightarrow> 'e + Level" where
  "getLogger dbg = Inr (if dbg then DebugLevel else InfoLevel)"

text \<open>
  The step \<^verbatim>\<open>if cond { runnerOptions = append(runnerOptions, option) }\<close> of
  \<^verbatim>\<open>getRunner\<close>.
\<close>

definition appendIf :: "bool \<Rightarrow> 'a \<Rightarrow> 'a list \<Rightarrow> 'a list" where
  "appendIf cond opt opts = (if cond then opts @ [opt] else opts)"

text \<open>
  \<^verbatim>\<open>getRunner\<close>; \<open>getwd\<close> is what \<^verbatim>\<open>os.Getwd()\<close> returns, an error or the
  working directory. The streams are left out.
\<close>

definition getRunner :: "bool \<Rightarrow> flags \<Rightarrow> 'e + string \<Rightarrow> 'e + runner" where
  "getRunner develMode fl getwd =
     (case getLogger (debug fl) of
        Inl err \<Rightarrow> Inl err
      | Inr logger \<Rightarrow>
          (let opts = [RunnerWithLogger logger];
               opts = appendIf (cachePath fl \<noteq> []) (RunnerWithCachePath (cachePath fl)) opts;
               opts = appendIf (configData fl \<noteq> []) (RunnerWithConfigData (configData fl)) opts;
               opts = appendIf (json fl) RunnerWithJSON opts;
               opts = appendIf (protocBinPath fl \<noteq> []) (RunnerWithProtocBinPath (protocBinPath fl)) opts;
               opts = appendIf (protocWKTPath fl \<noteq> []) (RunnerWithProtocWKTPath (protocWKTPath fl)) opts;
               opts = appendIf (errorFormat fl \<noteq> []) (RunnerWithErrorFormat (errorFormat fl)) opts;
               opts = appendIf (protocURL fl \<noteq> []) (RunnerWithProtocURL (protocURL fl)) opts;
               opts = appendIf develMode RunnerWithDevelMode opts
           in case getwd of
                Inl err \<Rightarrow> Inl err
              | Inr dir \<Rightarrow> Inr (NewRunner dir opts)))"

text \<open>
  \<^verbatim>\<open>checkCmd\<close>: the exit code it leaves at \<^verbatim>\<open>exitCodeAddr\<close>. The function
  \<open>printAndGetErrorExitCode\<close> is not among the sources and is a parameter; \<open>f\<close> is
  the template's \<^verbatim>\<open>Run\<close> on the runner, returning its error if any.
\<close>

definition checkCmd ::
  "('e \<Rightarrow> int) \<Rightarrow> bool \<Rightarrow> int \<Rightarrow> 'e + string \<Rightarrow> string list \<Rightarrow> flags \<Rightarrow>
   (runner \<Rightarrow> string list \<Rightarrow> flags \<Rightarrow> 'e option) \<Rightarrow> int" where
  "checkCmd printAndGetErrorExitCode develMode exitCode getwd args fl f =
     (case getRunner develMode fl getwd of
        Inl err \<Rightarrow> printAndGetErrorExitCode err
      | Inr r \<Rightarrow>
          (case f r args fl of
             Some err \<Rightarrow> printAndGetErrorExitCode err
           | None \<Rightarrow> exitCode))"

text \<open>The zero value of \<^verbatim>\<open>flags\<close>, before the command line sets any flag.\<close>

definition zeroFlags :: flags where
  "zeroFlags = \<lparr>
     address = [], allowBetaDeps = False, cachePath = [], callTimeout = [], configData = [],
     connectTimeout = [], data = [], debug = False, diffLintGroups = [], diffMode = False,
     disableFormat = False, disableLint = False, dryRun = False, errorFormat = [],
     fix' = False, gitBranch = [], gitTag = [], headers = [], includeBeta = False,
     json = False, keepaliveTime = [], lintMode = False, listAllLintGroups = False,
     listAllLinters = False, listLintGroup = [], listLinters = False, method' = [],
     name = [], overwrite = False, pkg = [], protocBinPath = [], protocURL = [],
     protocWKTPath = [], stdin = False, uncomment = False\<rparr>"

subsection \<open>The input and the configuration data, in package exec\<close>

text \<open>
  Modelled from the spec: the directory or file a method of the runner works on. The
  methods are in package exec, which is not among the sources. The input is the one
  positional argument; if there is no argument, the current working directory is used,
  which is the directory the runner was created with. A call without an argument list,
  or with more than one argument, has no such input.
\<close>

definition dirOrFile :: "runner \<Rightarrow> runner_call \<Rightarrow> string option" where
  "dirOrFile r call =
     (case call_args call of
        None \<Rightarrow> None
      | Some [] \<Rightarrow> Some (workDirPath r)
      | Some [a] \<Rightarrow> Some a
      | Some (a # b # rest) \<Rightarrow> None)"

text \<open>
  Modelled from the spec: what a runner of package exec, which is not among the sources,
  takes from its options. The options are applied in order, so the last option of a kind
  decides the inline configuration data.
\<close>

fun optionConfigData :: "RunnerOption list \<Rightarrow> string option" where
  "optionConfigData [] = None"
| "optionConfigData (RunnerWithConfigData d # opts) =
     (case optionConfigData opts of None \<Rightarrow> Some d | Some d' \<Rightarrow> Some d')"
| "optionConfigData (opt # opts) = optionConfigData opts"

text \<open>
  Modelled from the spec: the runner's choice of the governing configuration, which is in
  package exec and not among the sources. Configuration data supplied as an inline string
  overrides any file on disk; without it the on-disk resolution decides. The on-disk
  resolution \<open>onDisk\<close> (the nearest \<^verbatim>\<open>prototool.yaml\<close> or \<^verbatim>\<open>prototool.json\<close>
  above the path) and the reading of the inline data \<open>inline\<close> are parameters.
\<close>

definition governingConfig ::
  "runner \<Rightarrow> ('fs \<Rightarrow> string \<Rightarrow> 'c) \<Rightarrow> (string \<Rightarrow> 'c) \<Rightarrow> 'fs \<Rightarrow> string \<Rightarrow> 'c" where
  "governingConfig r onDisk inline files path =
     (case optionConfigData (runnerOptions r) of
        Some d \<Rightarrow> inline d
      | None \<Rightarrow> onDisk files path)"

section \<open>Properties of the template\<close>

subsection \<open>Executing the template\<close>

lemma Generate_Execute: "Generate pv u = Execute tmpl (generate_data pv u)"
  by (cases u) (simp_all add: Generate_def generate_data_def)

lemma Execute_append:
  "Execute (xs @ ys) d =
     (case Execute xs d of
        Inl e \<Rightarrow> Inl e
      | Inr a \<Rightarrow> (case Execute ys d of Inl e \<Rightarrow> Inl e | Inr b \<Rightarrow> Inr (a @ b)))"
  by (induction xs d rule: Execute.induct) (auto split: sum.splits)

lemma known_fields_Execute: "known_fields l \<Longrightarrow> \<exists>s. Execute l d = Inr s"
  by (induction l d rule: Execute.induct) (auto simp: known_fields_def evalField_def)

lemma known_fields_executed_line: "known_fields l \<Longrightarrow> Execute l d = Inr (executed_line d l)"
  using known_fields_Execute [of l d] by (auto simp: executed_line_def)

lemma Execute_join_nodes:
  "list_all known_fields ls \<Longrightarrow>
     Execute (join_nodes ls) d = Inr (join_lines (map (executed_line d) ls))"
proof (induction ls rule: join_nodes.induct)
  case 1
  then show ?case by simp
next
  case (2 l)
  then show ?case by (simp add: known_fields_executed_line)
next
  case (3 l l' ls)
  then have "Execute (join_nodes (l' # ls)) d = Inr (join_lines (map (executed_line d) (l' # ls)))"
    by simp
  moreover have "Execute l d = Inr (executed_line d l)"
    using 3 by (simp add: known_fields_executed_line)
  ultimately show ?case
    by (simp add: Execute_append)
qed

lemma tmpl_known_fields: "list_all known_fields tmpl_lines"
  by (simp add: tmpl_lines_def known_fields_def)

lemma Generate_executed_lines: "Generate pv u = Inr (join_lines (executed_lines pv u))"
  by (simp add: Generate_Execute tmpl_def executed_lines_def Execute_join_nodes tmpl_known_fields)


subsection \<open>The lines of the template\<close>

lemma htmlEscaper_hash: "htmlEscaper ''#'' = ''#''"
  by (simp add: htmlReplacementTable_def)

lemma all_spaces_replicate:
  "list_all (\<lambda>c. c = x) s \<Longrightarrow> s = replicate (length s) x"
  by (induction s) auto

lemma commented_append: "commented t \<Longrightarrow> commented (t @ x)"
proof (induction t)
  case Nil
  then show ?case by (simp add: commented_def)
next
  case (Cons c t)
  then show ?case by (cases "c = CHR '' ''") (simp_all add: commented_def)
qed

lemma tmpl_lines_shapes:
  "list_all (\<lambda>l. if FieldNode ''V'' \<in> set l then setting_line l else fixed_line l) tmpl_lines"
  by (simp add: tmpl_lines_def commented_def newline_def)

lemma length_tmpl_lines: "length tmpl_lines = 162"
  by (simp add: tmpl_lines_def)

lemma tmpl_lines_protoc: "tmpl_lines ! 6 = [TextNode ''protoc:'']"
  by (simp add: tmpl_lines_def)

lemma tmpl_lines_version: "tmpl_lines ! 10 = [TextNode ''  version: '', FieldNode ''ProtocVersion'']"
  by (simp add: tmpl_lines_def)

lemma executed_lines_nth:
  "i < length tmpl_lines \<Longrightarrow>
     executed_lines pv u ! i = executed_line (generate_data pv u) (tmpl_lines ! i)"
  by (simp add: executed_lines_def)

lemma executed_lines_protoc: "executed_lines pv u ! 6 = ''protoc:''"
  by (simp add: executed_lines_nth length_tmpl_lines tmpl_lines_protoc executed_line_def)

lemma executed_lines_version: "executed_lines pv u ! 10 = ''  version: '' @ htmlEscaper pv"
  by (simp add: executed_lines_nth length_tmpl_lines tmpl_lines_version executed_line_def
      evalField_def generate_data_def)

subsection \<open>Lines of the output\<close>

lemma lines_of_nonempty: "lines_of s \<noteq> []"
  by (induction s) (auto split: list.splits)

lemma lines_of_no_newline: "newline \<notin> set s \<Longrightarrow> lines_of s = [s]"
  by (induction s) auto

lemma lines_of_append:
  "lines_of (a @ newline # b) = lines_of a @ lines_of b"
proof (induction a)
  case Nil
  then show ?case by simp
next
  case (Cons c a)
  obtain l ls where "lines_of a = l # ls"
    using lines_of_nonempty [of a] by (cases "lines_of a") auto
  with Cons show ?case by simp
qed

lemma lines_of_join_lines:
  "ls \<noteq> [] \<Longrightarrow> lines_of (join_lines ls) = concat (map lines_of ls)"
  by (induction ls rule: join_lines.induct) (simp_all add: lines_of_append)

lemma line_in_lines_of_join:
  assumes "l \<in> set ls" and "newline \<notin> set l"
  shows "l \<in> set (lines_of (join_lines ls))"
proof -
  from assms(1) have "ls \<noteq> []" by auto
  moreover from assms have "l \<in> set (concat (map lines_of ls))"
    by (auto simp: lines_of_no_newline intro!: bexI [of _ l])
  ultimately show ?thesis by (simp add: lines_of_join_lines)
qed

lemma htmlEscaper_unchanged:
  "list_all (\<lambda>c. htmlReplacementTable c = None) s \<Longrightarrow> htmlEscaper s = s"
  by (induction s) auto

lemma digit_plain: "digit c \<Longrightarrow> htmlReplacementTable c = None \<and> c \<noteq> newline"
  by (auto simp: digit_def htmlReplacementTable_def newline_def)

lemma dot_plain: "htmlReplacementTable (CHR ''.'') = None \<and> CHR ''.'' \<noteq> newline"
  by (simp add: htmlReplacementTable_def newline_def)

lemma eat_digits_Some:
  "eat_digits s = Some r \<longleftrightarrow> (\<exists>a. s = a @ r \<and> a \<noteq> [] \<and> list_all digit a \<and> (r = [] \<or> \<not> digit (hd r)))"
proof
  assume "eat_digits s = Some r"
  then have 1: "takeWhile digit s \<noteq> []" and r: "r = dropWhile digit s"
    by (auto simp: eat_digits_def split: if_splits)
  have 2: "s = takeWhile digit s @ r"
    unfolding r by simp
  have 3: "list_all digit (takeWhile digit s)"
    by (auto simp: list_all_iff dest: set_takeWhileD)
  have 4: "r = [] \<or> \<not> digit (hd r)"
    unfolding r using hd_dropWhile [of digit s] by auto
  show "\<exists>a. s = a @ r \<and> a \<noteq> [] \<and> list_all digit a \<and> (r = [] \<or> \<not> digit (hd r))"
    by (rule exI [of _ "takeWhile digit s"]) (intro conjI 1 2 3 4)
next
  assume "\<exists>a. s = a @ r \<and> a \<noteq> [] \<and> list_all digit a \<and> (r = [] \<or> \<not> digit (hd r))"
  then obtain a where s: "s = a @ r" and a: "a \<noteq> []" "list_all digit a"
    and r: "r = [] \<or> \<not> digit (hd r)" by blast
  from r have tr: "takeWhile digit r = []" and dr: "dropWhile digit r = r"
    by (cases r; auto)+
  from a(2) have "takeWhile digit (a @ r) = a @ takeWhile digit r"
    and "dropWhile digit (a @ r) = dropWhile digit r"
    by (simp_all add: list_all_iff)
  with a tr dr show "eat_digits s = Some r"
    unfolding s by (simp add: eat_digits_def)
qed

lemma eat_dot_Some: "eat_dot s = Some r \<longleftrightarrow> s = CHR ''.'' # r"
  by (cases s) (auto simp: eat_dot_def)

lemma eat_digits_dot:
  "a \<noteq> [] \<Longrightarrow> list_all digit a \<Longrightarrow> eat_digits (a @ CHR ''.'' # r) = Some (CHR ''.'' # r)"
  unfolding eat_digits_Some by (rule exI [of _ a]) (simp add: digit_def)

text \<open>The matcher accepts the language of the regular expression.\<close>

lemma version_string_iff:
  "version_string s \<longleftrightarrow>
     (\<exists>a b c. s = a @ ''.'' @ b @ ''.'' @ c \<and> a \<noteq> [] \<and> b \<noteq> [] \<and> c \<noteq> [] \<and>
        list_all digit a \<and> list_all digit b \<and> list_all digit c)"
proof
  assume "version_string s"
  then obtain c where c: "c \<noteq> []" "list_all digit c"
    and "Option.bind (eat_digits s)
           (\<lambda>x. Option.bind (eat_dot x) (\<lambda>y. Option.bind (eat_digits y) eat_dot)) = Some c"
    unfolding version_string_def by (auto split: option.splits)
  then obtain x y z where 1: "eat_digits s = Some x" and 2: "eat_dot x = Some y"
    and 3: "eat_digits y = Some z" and 4: "eat_dot z = Some c"
    unfolding bind_eq_Some_conv by blast
  from 1 obtain a where a: "s = a @ x" "a \<noteq> []" "list_all digit a"
    unfolding eat_digits_Some by blast
  from 3 obtain b where b: "y = b @ z" "b \<noteq> []" "list_all digit b"
    unfolding eat_digits_Some by blast
  from 2 have x: "x = CHR ''.'' # y" by (simp add: eat_dot_Some)
  from 4 have z: "z = CHR ''.'' # c" by (simp add: eat_dot_Some)
  have "s = a @ ''.'' @ b @ ''.'' @ c"
    unfolding a(1) x b(1) z by simp
  with a(2,3) b(2,3) c
  show "\<exists>a b c. s = a @ ''.'' @ b @ ''.'' @ c \<and> a \<noteq> [] \<and> b \<noteq> [] \<and> c \<noteq> [] \<and>
        list_all digit a \<and> list_all digit b \<and> list_all digit c"
    by (intro exI [of _ a] exI [of _ b] exI [of _ c] conjI)
next
  assume "\<exists>a b c. s = a @ ''.'' @ b @ ''.'' @ c \<and> a \<noteq> [] \<and> b \<noteq> [] \<and> c \<noteq> [] \<and>
        list_all digit a \<and> list_all digit b \<and> list_all digit c"
  then obtain a b c where s: "s = a @ CHR ''.'' # b @ CHR ''.'' # c"
    and n: "a \<noteq> []" "b \<noteq> []" "c \<noteq> []"
    and d: "list_all digit a" "list_all digit b" "list_all digit c"
    by auto
  have "eat_digits s = Some (CHR ''.'' # b @ CHR ''.'' # c)"
    unfolding s using n(1) d(1) by (rule eat_digits_dot)
  moreover have "eat_digits (b @ CHR ''.'' # c) = Some (CHR ''.'' # c)"
    using n(2) d(2) by (rule eat_digits_dot)
  ultimately show "version_string s"
    using n(3) d(3) by (simp add: version_string_def eat_dot_def)
qed

lemma version_string_plain:
  assumes "version_string s"
  shows "htmlEscaper s = s \<and> newline \<notin> set s"
proof -
  from assms obtain a b c where s: "s = a @ ''.'' @ b @ ''.'' @ c"
    and d: "list_all digit a" "list_all digit b" "list_all digit c"
    by (auto simp: version_string_iff)
  from d have "list_all (\<lambda>c. htmlReplacementTable c = None \<and> c \<noteq> newline) (a @ ''.'' @ b @ ''.'' @ c)"
    using digit_plain dot_plain by (auto simp: list_all_iff)
  with s have *: "list_all (\<lambda>c. htmlReplacementTable c = None \<and> c \<noteq> newline) s" by simp
  then have "list_all (\<lambda>c. htmlReplacementTable c = None) s" and "newline \<notin> set s"
    by (auto simp: list_all_iff)
  then show ?thesis by (simp add: htmlEscaper_unchanged)
qed

subsection \<open>Execution against substitution\<close>

lemma substituted_Nil: "substituted v e [] = []"
  by (simp add: substituted_def)

lemma substituted_Cons: "substituted v e (n # l) = substituted_node v e n @ substituted v e l"
  by (simp add: substituted_def)

lemma Execute_substituted:
  "known_fields l \<Longrightarrow>
     Execute l d = Inr (substituted (htmlEscaper (V d)) (htmlEscaper (ProtocVersion d)) l)"
  by (induction l d rule: Execute.induct)
    (auto simp: known_fields_def evalField_def substituted_Nil substituted_Cons)

lemma executed_line_substituted:
  "known_fields l \<Longrightarrow>
     executed_line (generate_data pv u) l =
       substituted (if u then [] else ''#'') (htmlEscaper pv) l"
  by (cases u)
    (simp_all add: executed_line_def Execute_substituted generate_data_def
      htmlReplacementTable_def)

lemma executed_lines_substituted:
  "executed_lines pv u = substituted_lines (if u then [] else ''#'') pv"
proof -
  have "\<forall>l \<in> set tmpl_lines. known_fields l"
    using tmpl_known_fields by (simp add: list_all_iff)
  then have "map (executed_line (generate_data pv u)) tmpl_lines =
      map (substituted (if u then [] else ''#'') (htmlEscaper pv)) tmpl_lines"
    by (intro map_cong refl executed_line_substituted) simp
  then show ?thesis
    by (simp only: executed_lines_def substituted_lines_def)
qed

lemma Generate_substituted_lines:
  "Generate pv False = Inr (join_lines (substituted_lines ''#'' pv))"
  "Generate pv True = Inr (join_lines (substituted_lines [] pv))"
  using executed_lines_substituted [of pv False] executed_lines_substituted [of pv True]
  by (simp_all add: Generate_executed_lines)

lemma lines_of_substituted_lines:
  "lines_of (join_lines (substituted_lines v pv)) =
     concat (map (\<lambda>l. lines_of (substituted v (htmlEscaper pv) l)) tmpl_lines)"
proof -
  have "tmpl_lines \<noteq> []"
    using length_tmpl_lines by auto
  then have "substituted_lines v pv \<noteq> []"
    by (simp add: substituted_lines_def)
  then show ?thesis
    by (simp add: lines_of_join_lines substituted_lines_def comp_def)
qed

lemma newline_not_space: "newline \<noteq> CHR '' ''"
  by (simp add: newline_def)

lemma space_not_newline: "list_all (\<lambda>c. c = CHR '' '') ind \<Longrightarrow> newline \<notin> set ind"
  using newline_not_space by (auto simp: list_all_iff)

lemma lines_of_setting:
  assumes "newline \<notin> set ind" and "newline \<notin> set t"
  shows "lines_of (ind @ ''#'' @ t) = [ind @ ''#'' @ t]" and "lines_of (ind @ t) = [ind @ t]"
proof -
  have h: "newline \<noteq> CHR ''#''"
    by (simp add: newline_def)
  from assms h have "newline \<notin> set (ind @ ''#'' @ t)"
    by simp
  then show "lines_of (ind @ ''#'' @ t) = [ind @ ''#'' @ t]"
    by (rule lines_of_no_newline)
  from assms have "newline \<notin> set (ind @ t)"
    by simp
  then show "lines_of (ind @ t) = [ind @ t]"
    by (rule lines_of_no_newline)
qed

lemma substituted_setting:
  "substituted v e [FieldNode ''V'', TextNode t] = [] @ v @ t"
  "substituted v e [TextNode ind, FieldNode ''V'', TextNode t] = ind @ v @ t"
  by (simp_all add: substituted_def)

lemma setting_line_substituted:
  assumes "setting_line l"
  shows "\<exists>ind t. (l = [FieldNode ''V'', TextNode t] \<and> ind = [] \<or>
                  l = [TextNode ind, FieldNode ''V'', TextNode t]) \<and>
               list_all (\<lambda>c. c = CHR '' '') ind \<and> \<not> commented t \<and>
               lines_of (substituted ''#'' e l) = [ind @ ''#'' @ t] \<and>
               lines_of (substituted [] e l) = [ind @ t]"
  using assms
proof (rule setting_line.elims(2))
  fix f t
  assume l: "l = [FieldNode f, TextNode t]"
    and "f = ''V'' \<and> \<not> commented t \<and> newline \<notin> set t"
  then have f: "f = ''V''" and c: "\<not> commented t" and n: "newline \<notin> set t"
    by simp_all
  have e: "newline \<notin> set ([]::string)" by simp
  note lines_of_setting [OF e n]
  then have "lines_of (substituted ''#'' e l) = [[] @ ''#'' @ t]"
    and "lines_of (substituted [] e l) = [[] @ t]"
    unfolding l f substituted_setting by simp_all
  with l f c show ?thesis
    by (intro exI [of _ "[]"] exI [of _ t]) simp
next
  fix ind f t
  assume l: "l = [TextNode ind, FieldNode f, TextNode t]"
    and "ind \<noteq> [] \<and> list_all (\<lambda>c. c = CHR '' '') ind \<and> f = ''V'' \<and> \<not> commented t \<and>
      newline \<notin> set t"
  then have sp: "list_all (\<lambda>c. c = CHR '' '') ind" and f: "f = ''V''" and c: "\<not> commented t"
    and n: "newline \<notin> set t"
    by simp_all
  note lines_of_setting [OF space_not_newline [OF sp] n]
  then have "lines_of (substituted ''#'' e l) = [ind @ ''#'' @ t]"
    and "lines_of (substituted [] e l) = [ind @ t]"
    unfolding l f substituted_setting by simp_all
  with l f c sp show ?thesis
    by (intro exI [of _ ind] exI [of _ t]) simp
qed

lemma substituted_without_V:
  "FieldNode ''V'' \<notin> set l \<Longrightarrow> substituted v e l = substituted v' e l"
proof (induction l)
  case Nil
  then show ?case by (simp add: substituted_Nil)
next
  case (Cons n l)
  then show ?case by (cases n) (auto simp: substituted_Cons)
qed

lemma fixed_line_kind:
  "fixed_line l \<Longrightarrow>
     l = [TextNode ''protoc:''] \<or> l = [TextNode ''  version: '', FieldNode ''ProtocVersion''] \<or>
     l = [] \<or> (\<exists>t rest. l = TextNode t # rest \<and> commented t)"
  by (induction l rule: fixed_line.induct) auto

lemma lines_of_prefix:
  "newline \<notin> set p \<Longrightarrow> lines_of (p @ s) = (p @ hd (lines_of s)) # tl (lines_of s)"
proof (induction p)
  case Nil
  then show ?case using lines_of_nonempty [of s] by simp
next
  case (Cons c p)
  then show ?case by auto
qed

lemma tmpl_lines_members:
  "[TextNode ''protoc:''] \<in> set tmpl_lines"
  "[TextNode ''  version: '', FieldNode ''ProtocVersion''] \<in> set tmpl_lines"
  using nth_mem [of 6 tmpl_lines] nth_mem [of 10 tmpl_lines]
  by (simp_all add: length_tmpl_lines tmpl_lines_protoc tmpl_lines_version)

section \<open>Properties of the commands\<close>

lemmas cmdTemplate_defs =
  allCmdTemplate_def breakCheckCmdTemplate_def cacheUpdateCmdTemplate_def
  cacheDeleteCmdTemplate_def compileCmdTemplate_def createCmdTemplate_def
  filesCmdTemplate_def formatCmdTemplate_def generateCmdTemplate_def grpcCmdTemplate_def
  inspectPackagesCmdTemplate_def inspectPackageDepsCmdTemplate_def
  inspectPackageImportersCmdTemplate_def configInitCmdTemplate_def lintCmdTemplate_def
  versionCmdTemplate_def

lemma optionalArgCmdTemplates_list:
  "optionalArgCmdTemplates =
     [allCmdTemplate, breakCheckCmdTemplate, cacheUpdateCmdTemplate, compileCmdTemplate,
      filesCmdTemplate, formatCmdTemplate, generateCmdTemplate, grpcCmdTemplate,
      inspectPackagesCmdTemplate, inspectPackageDepsCmdTemplate,
      inspectPackageImportersCmdTemplate, configInitCmdTemplate, lintCmdTemplate]"
  by (simp add: optionalArgCmdTemplates_def cmdTemplates_def cmdTemplate_defs)

lemma otherCmdTemplates_list:
  "otherCmdTemplates = [cacheDeleteCmdTemplate, createCmdTemplate, versionCmdTemplate]"
  by (simp add: otherCmdTemplates_def cmdTemplates_def cmdTemplate_defs)

lemma optionalArg_Uses:
  "map (\<lambda>t. commandUse (Build t)) optionalArgCmdTemplates =
     [''all [dirOrFile]'', ''check [dir]'', ''update [dirOrFile]'', ''compile [dirOrFile]'',
      ''files [dirOrFile]'', ''format [dirOrFile]'', ''generate [dirOrFile]'',
      ''grpc [dirOrFile]'', ''packages [dirOrFile]'', ''package-deps [dirOrFile]'',
      ''package-importers [dirOrFile]'', ''init [dirPath]'', ''lint [dirOrFile]'']"
  by (simp add: optionalArgCmdTemplates_list Build_def cmdTemplate_defs)

lemma other_Uses:
  "map (\<lambda>t. commandUse (Build t)) otherCmdTemplates = [''delete'', ''create files...'', ''version'']"
  by (simp add: otherCmdTemplates_list Build_def cmdTemplate_defs)

lemma optionalArg_accepts:
  "t \<in> set optionalArgCmdTemplates \<Longrightarrow> accepts (commandArgs (Build t)) args = (length args \<le> 1)"
  by (simp add: optionalArgCmdTemplates_def Build_def)

lemma optionalArg_call_args:
  "t \<in> set optionalArgCmdTemplates \<Longrightarrow> call_args (Run t args fl) = Some args"
  unfolding optionalArgCmdTemplates_list by (auto simp: cmdTemplate_defs)

lemma optionConfigData_snoc:
  "optionConfigData (opts @ [x]) =
     (case x of RunnerWithConfigData d \<Rightarrow> Some d | _ \<Rightarrow> optionConfigData opts)"
  by (induction opts rule: optionConfigData.induct) (auto split: RunnerOption.splits option.splits)

lemma optionConfigData_appendIf:
  "optionConfigData (appendIf cond x opts) =
     (if cond then (case x of RunnerWithConfigData d \<Rightarrow> Some d | _ \<Rightarrow> optionConfigData opts)
      else optionConfigData opts)"
  by (simp add: appendIf_def optionConfigData_snoc)

lemma getRunner_Inr:
  "getRunner develMode fl (Inr dir) = Inr r \<Longrightarrow> workDirPath r = dir"
  by (auto simp: getRunner_def getLogger_def NewRunner_def Let_def)

lemma getRunner_getwd:
  "getRunner develMode fl getwd = Inr r \<Longrightarrow> getwd = Inr (workDirPath r)"
  by (cases getwd) (auto simp: getRunner_def getLogger_def NewRunner_def Let_def)

lemma getRunner_total: "\<exists>r. getRunner develMode fl (Inr dir) = Inr r"
  by (simp add: getRunner_def getLogger_def Let_def)

lemma getRunner_workDirPath:
  "\<exists>r. getRunner develMode fl (Inr dir) = Inr r \<and> workDirPath r = dir"
  by (simp add: getRunner_def getLogger_def Let_def NewRunner_def)

lemma getRunner_configData:
  assumes "getRunner develMode fl getwd = Inr r"
  shows "optionConfigData (runnerOptions r) =
           (if configData fl \<noteq> [] then Some (configData fl) else None)"
proof -
  from assms obtain dir where "getwd = Inr dir"
    using getRunner_getwd by blast
  with assms show ?thesis
    by (auto simp: getRunner_def getLogger_def NewRunner_def Let_def optionConfigData_appendIf)
qed

text \<open>
  With the argument omitted the input of a command with an optional argument is the
  directory its runner was created with; with an argument it is the argument.
\<close>

lemma optionalArg_dirOrFile:
  assumes "t \<in> set optionalArgCmdTemplates"
  shows "dirOrFile r (Run t [] fl) = Some (workDirPath r)"
    and "dirOrFile r (Run t [a] fl) = Some a"
  using optionalArg_call_args [OF assms] by (simp_all add: dirOrFile_def)

text \<open>
  The exit code after \<^verbatim>\<open>checkCmd\<close> is the one before it when neither
  \<^verbatim>\<open>getRunner\<close> nor the command returns an error, and otherwise whatever
  \<open>printAndGetErrorExitCode\<close> makes of the error.
\<close>

lemma checkCmd_no_error:
  "getRunner develMode fl getwd = Inr r \<Longrightarrow> f r args fl = None \<Longrightarrow>
     checkCmd printAndGetErrorExitCode develMode exitCode getwd args fl f = exitCode"
  by (simp add: checkCmd_def)

lemma checkCmd_exit_codes:
  "checkCmd printAndGetErrorExitCode develMode exitCode getwd args fl f = exitCode \<or>
   (\<exists>err. checkCmd printAndGetErrorExitCode develMode exitCode getwd args fl f =
      printAndGetErrorExitCode err)"
  by (auto simp: checkCmd_def split: sum.splits option.splits)

section \<open>Claims about the generated configuration\<close>

text \<open>
  C9. For every protoc version, \<^verbatim>\<open>Generate\<close> without \<^verbatim>\<open>uncomment\<close> returns the
  lines of the template, joined by line feeds, with \<^verbatim>\<open>#\<close> in the place of every
  \<^verbatim>\<open>{{.V}}\<close> and the escaped version in the place of \<^verbatim>\<open>{{.ProtocVersion}}\<close>; with
  \<^verbatim>\<open>uncomment\<close> it returns the same lines with nothing in the place of
  \<^verbatim>\<open>{{.V}}\<close>. The lines of either output are the lines of the template in order, each
  split where the version holds a line feed. Every line of the template with
  \<^verbatim>\<open>{{.V}}\<close> is a setting: indentation, \<^verbatim>\<open>{{.V}}\<close> and the text of the setting, and
  it is one line of the output, the indentation, \<^verbatim>\<open>#\<close> and that text when commented
  and the indentation and that text when uncommented. Every other line is the same in both
  outputs and is the \<^verbatim>\<open>protoc:\<close> header, its \<^verbatim>\<open>version:\<close> line, an empty line
  or a comment of the template; the header comes out as \<^verbatim>\<open>protoc:\<close> and the version
  line starts with \<^verbatim>\<open>  version: \<close>, neither commented out.
\<close>

theorem Generate_comments_optional_settings:
  "Generate pv False = Inr (join_lines (substituted_lines ''#'' pv)) \<and>
   Generate pv True = Inr (join_lines (substituted_lines [] pv)) \<and>
   lines_of (join_lines (substituted_lines ''#'' pv)) =
     concat (map (\<lambda>l. lines_of (substituted ''#'' (htmlEscaper pv) l)) tmpl_lines) \<and>
   lines_of (join_lines (substituted_lines [] pv)) =
     concat (map (\<lambda>l. lines_of (substituted [] (htmlEscaper pv) l)) tmpl_lines) \<and>
   (\<forall>l \<in> set tmpl_lines.
      if FieldNode ''V'' \<in> set l
      then (\<exists>ind t. (l = [FieldNode ''V'', TextNode t] \<and> ind = [] \<or>
                     l = [TextNode ind, FieldNode ''V'', TextNode t]) \<and>
                  list_all (\<lambda>c. c = CHR '' '') ind \<and> \<not> commented t \<and>
                  lines_of (substituted ''#'' (htmlEscaper pv) l) = [ind @ ''#'' @ t] \<and>
                  lines_of (substituted [] (htmlEscaper pv) l) = [ind @ t])
      else substituted ''#'' (htmlEscaper pv) l = substituted [] (htmlEscaper pv) l \<and>
           (l = [TextNode ''protoc:''] \<or>
            l = [TextNode ''  version: '', FieldNode ''ProtocVersion''] \<or>
            l = [] \<or>
            (\<exists>t rest. l = TextNode t # rest \<and> commented t))) \<and>
   [TextNode ''protoc:''] \<in> set tmpl_lines \<and>
   [TextNode ''  version: '', FieldNode ''ProtocVersion''] \<in> set tmpl_lines \<and>
   lines_of (substituted ''#'' (htmlEscaper pv) [TextNode ''protoc:'']) = [''protoc:''] \<and>
   (\<exists>first rest.
      lines_of (htmlEscaper pv) = first # rest \<and>
      lines_of (substituted ''#'' (htmlEscaper pv)
        [TextNode ''  version: '', FieldNode ''ProtocVersion'']) = (''  version: '' @ first) # rest)"
proof -
  have shape: "if FieldNode ''V'' \<in> set l then setting_line l else fixed_line l"
    if "l \<in> set tmpl_lines" for l
    using tmpl_lines_shapes that by (simp add: list_all_iff)
  have lines: "if FieldNode ''V'' \<in> set l
      then (\<exists>ind t. (l = [FieldNode ''V'', TextNode t] \<and> ind = [] \<or>
                     l = [TextNode ind, FieldNode ''V'', TextNode t]) \<and>
                  list_all (\<lambda>c. c = CHR '' '') ind \<and> \<not> commented t \<and>
                  lines_of (substituted ''#'' (htmlEscaper pv) l) = [ind @ ''#'' @ t] \<and>
                  lines_of (substituted [] (htmlEscaper pv) l) = [ind @ t])
      else substituted ''#'' (htmlEscaper pv) l = substituted [] (htmlEscaper pv) l \<and>
           (l = [TextNode ''protoc:''] \<or>
            l = [TextNode ''  version: '', FieldNode ''ProtocVersion''] \<or>
            l = [] \<or>
            (\<exists>t rest. l = TextNode t # rest \<and> commented t))"
    if l: "l \<in> set tmpl_lines" for l
  proof (cases "FieldNode ''V'' \<in> set l")
    case True
    with shape [OF l] have "setting_line l" by simp
    then have "\<exists>ind t. (l = [FieldNode ''V'', TextNode t] \<and> ind = [] \<or>
                     l = [TextNode ind, FieldNode ''V'', TextNode t]) \<and>
                  list_all (\<lambda>c. c = CHR '' '') ind \<and> \<not> commented t \<and>
                  lines_of (substituted ''#'' (htmlEscaper pv) l) = [ind @ ''#'' @ t] \<and>
                  lines_of (substituted [] (htmlEscaper pv) l) = [ind @ t]"
      by (rule setting_line_substituted)
    then show ?thesis by (subst if_P [OF True])
  next
    case False
    with shape [OF l] have "fixed_line l" by simp
    then have "l = [TextNode ''protoc:''] \<or>
            l = [TextNode ''  version: '', FieldNode ''ProtocVersion''] \<or>
            l = [] \<or>
            (\<exists>t rest. l = TextNode t # rest \<and> commented t)"
      by (rule fixed_line_kind)
    moreover have "substituted ''#'' (htmlEscaper pv) l = substituted [] (htmlEscaper pv) l"
      using False by (rule substituted_without_V)
    ultimately show ?thesis by (subst if_not_P [OF False]) (rule conjI)
  qed
  have header: "lines_of (substituted ''#'' (htmlEscaper pv) [TextNode ''protoc:'']) = [''protoc:'']"
    by (simp add: substituted_def newline_def)
  have "lines_of (''  version: '' @ htmlEscaper pv) =
      (''  version: '' @ hd (lines_of (htmlEscaper pv))) # tl (lines_of (htmlEscaper pv))"
    by (rule lines_of_prefix) (simp add: newline_def)
  moreover have "lines_of (htmlEscaper pv) =
      hd (lines_of (htmlEscaper pv)) # tl (lines_of (htmlEscaper pv))"
    using lines_of_nonempty [of "htmlEscaper pv"] by simp
  moreover have "substituted ''#'' (htmlEscaper pv)
      [TextNode ''  version: '', FieldNode ''ProtocVersion''] = ''  version: '' @ htmlEscaper pv"
    by (simp add: substituted_def)
  ultimately have version: "\<exists>first rest.
      lines_of (htmlEscaper pv) = first # rest \<and>
      lines_of (substituted ''#'' (htmlEscaper pv)
        [TextNode ''  version: '', FieldNode ''ProtocVersion'']) = (''  version: '' @ first) # rest"
    by (intro exI [of _ "hd (lines_of (htmlEscaper pv))"] exI [of _ "tl (lines_of (htmlEscaper pv))"])
      (simp only: simp_thms)
  show ?thesis
    by (intro conjI ballI Generate_substituted_lines lines_of_substituted_lines lines
        tmpl_lines_members header version)
qed

theorem Generate_comments_optional_settings_witness:
  "Generate ''3.8.0'' False = Inr (join_lines (substituted_lines ''#'' ''3.8.0'')) \<and>
   Generate ''3.8.0'' True = Inr (join_lines (substituted_lines [] ''3.8.0'')) \<and>
   [FieldNode ''V'', TextNode ''excludes:''] \<in> set tmpl_lines \<and>
   FieldNode ''V'' \<in> set [FieldNode ''V'', TextNode ''excludes:''] \<and>
   lines_of (substituted ''#'' (htmlEscaper ''3.8.0'') [FieldNode ''V'', TextNode ''excludes:'']) =
     [''#excludes:''] \<and>
   lines_of (substituted [] (htmlEscaper ''3.8.0'') [FieldNode ''V'', TextNode ''excludes:'']) =
     [''excludes:''] \<and>
   [TextNode ''# Protoc directives.''] \<in> set tmpl_lines \<and>
   FieldNode ''V'' \<notin> set [TextNode ''# Protoc directives.''] \<and>
   substituted ''#'' (htmlEscaper ''3.8.0'') [TextNode ''# Protoc directives.''] =
     substituted [] (htmlEscaper ''3.8.0'') [TextNode ''# Protoc directives.'']"
proof -
  note inst = Generate_comments_optional_settings [of "''3.8.0''"]
  note gen_c = inst [THEN conjunct1]
  note gen_u = inst [THEN conjunct2, THEN conjunct1]
  note all = inst [THEN conjunct2, THEN conjunct2, THEN conjunct2, THEN conjunct2, THEN conjunct1]
  have "tmpl_lines ! 1 = [FieldNode ''V'', TextNode ''excludes:'']"
    and "tmpl_lines ! 5 = [TextNode ''# Protoc directives.'']"
    by (simp_all add: tmpl_lines_def)
  then have m1: "[FieldNode ''V'', TextNode ''excludes:''] \<in> set tmpl_lines"
    and m5: "[TextNode ''# Protoc directives.''] \<in> set tmpl_lines"
    using nth_mem [of 1 tmpl_lines] nth_mem [of 5 tmpl_lines]
    by (simp_all add: length_tmpl_lines)
  have v1: "FieldNode ''V'' \<in> set [FieldNode ''V'', TextNode ''excludes:'']"
    and v5: "FieldNode ''V'' \<notin> set [TextNode ''# Protoc directives.'']"
    by simp_all
  from all m1 have "if FieldNode ''V'' \<in> set [FieldNode ''V'', TextNode ''excludes:'']
      then (\<exists>ind t. ([FieldNode ''V'', TextNode ''excludes:''] = [FieldNode ''V'', TextNode t] \<and> ind = [] \<or>
                     [FieldNode ''V'', TextNode ''excludes:''] = [TextNode ind, FieldNode ''V'', TextNode t]) \<and>
                  list_all (\<lambda>c. c = CHR '' '') ind \<and> \<not> commented t \<and>
                  lines_of (substituted ''#'' (htmlEscaper ''3.8.0'') [FieldNode ''V'', TextNode ''excludes:'']) = [ind @ ''#'' @ t] \<and>
                  lines_of (substituted [] (htmlEscaper ''3.8.0'') [FieldNode ''V'', TextNode ''excludes:'']) = [ind @ t])
      else substituted ''#'' (htmlEscaper ''3.8.0'') [FieldNode ''V'', TextNode ''excludes:''] =
             substituted [] (htmlEscaper ''3.8.0'') [FieldNode ''V'', TextNode ''excludes:''] \<and>
           ([FieldNode ''V'', TextNode ''excludes:''] = [TextNode ''protoc:''] \<or>
            [FieldNode ''V'', TextNode ''excludes:''] = [TextNode ''  version: '', FieldNode ''ProtocVersion''] \<or>
            [FieldNode ''V'', TextNode ''excludes:''] = [] \<or>
            (\<exists>t rest. [FieldNode ''V'', TextNode ''excludes:''] = TextNode t # rest \<and> commented t))"
    by (rule bspec)
  then have l1: "lines_of (substituted ''#'' (htmlEscaper ''3.8.0'') [FieldNode ''V'', TextNode ''excludes:'']) = [''#excludes:'']"
    and l1': "lines_of (substituted [] (htmlEscaper ''3.8.0'') [FieldNode ''V'', TextNode ''excludes:'']) = [''excludes:'']"
    by auto
  from all m5 have "if FieldNode ''V'' \<in> set [TextNode ''# Protoc directives.'']
      then (\<exists>ind t. ([TextNode ''# Protoc directives.''] = [FieldNode ''V'', TextNode t] \<and> ind = [] \<or>
                     [TextNode ''# Protoc directives.''] = [TextNode ind, FieldNode ''V'', TextNode t]) \<and>
                  list_all (\<lambda>c. c = CHR '' '') ind \<and> \<not> commented t \<and>
                  lines_of (substituted ''#'' (htmlEscaper ''3.8.0'') [TextNode ''# Protoc directives.'']) = [ind @ ''#'' @ t] \<and>
                  lines_of (substituted [] (htmlEscaper ''3.8.0'') [TextNode ''# Protoc directives.'']) = [ind @ t])
      else substituted ''#'' (htmlEscaper ''3.8.0'') [TextNode ''# Protoc directives.''] =
             substituted [] (htmlEscaper ''3.8.0'') [TextNode ''# Protoc directives.''] \<and>
           ([TextNode ''# Protoc directives.''] = [TextNode ''protoc:''] \<or>
            [TextNode ''# Protoc directives.''] = [TextNode ''  version: '', FieldNode ''ProtocVersion''] \<or>
            [TextNode ''# Protoc directives.''] = [] \<or>
            (\<exists>t rest. [TextNode ''# Protoc directives.''] = TextNode t # rest \<and> commented t))"
    by (rule bspec)
  then have l5: "substituted ''#'' (htmlEscaper ''3.8.0'') [TextNode ''# Protoc directives.''] =
     substituted [] (htmlEscaper ''3.8.0'') [TextNode ''# Protoc directives.'']"
    by simp
  show ?thesis
    by (intro conjI gen_c gen_u m1 v1 l1 l1' m5 v5 l5)
qed

text \<open>
  C10. For every protoc version of the form digits, dot, digits, dot, digits and either
  value of \<^verbatim>\<open>uncomment\<close>, \<^verbatim>\<open>Generate\<close> returns no error, and one line of its
  output is two spaces, \<^verbatim>\<open>version: \<close> and the version, unescaped.
\<close>

theorem Generate_version_line:
  "version_string pv \<Longrightarrow>
     \<exists>out. Generate pv u = Inr out \<and> ''  version: '' @ pv \<in> set (lines_of out)"
proof -
  assume v: "version_string pv"
  then have esc: "htmlEscaper pv = pv" and nl: "newline \<notin> set pv"
    using version_string_plain by auto
  have "executed_lines pv u ! 10 = ''  version: '' @ pv"
    by (simp add: executed_lines_version esc)
  moreover have "(10::nat) < length (executed_lines pv u)"
    by (simp add: executed_lines_def length_tmpl_lines)
  ultimately have "''  version: '' @ pv \<in> set (executed_lines pv u)"
    by (metis nth_mem)
  moreover from nl have "newline \<notin> set (''  version: '' @ pv)"
    by (simp add: newline_def)
  ultimately have "''  version: '' @ pv \<in> set (lines_of (join_lines (executed_lines pv u)))"
    by (rule line_in_lines_of_join)
  then show ?thesis
    by (simp add: Generate_executed_lines)
qed

theorem Generate_version_line_witness:
  "version_string ''3.8.0'' \<and>
   (\<exists>out. Generate ''3.8.0'' False = Inr out \<and> ''  version: 3.8.0'' \<in> set (lines_of out))"
proof -
  have v: "version_string ''3.8.0''"
    by (simp add: version_string_def eat_digits_def eat_dot_def digit_def)
  from Generate_version_line [OF v, of False] v show ?thesis by simp
qed

section \<open>Claims about the commands\<close>

text \<open>
  C6, as the spec states it: every command accepts an optional positional argument. It
  fails for three commands: \<^verbatim>\<open>create\<close> refuses an empty argument list, and
  \<^verbatim>\<open>cache delete\<close> and \<^verbatim>\<open>version\<close> refuse an argument.
\<close>

theorem optional_argument_counterexample:
  "\<not> accepts (commandArgs (Build createCmdTemplate)) [] \<and>
   \<not> accepts (commandArgs (Build cacheDeleteCmdTemplate)) [''dir''] \<and>
   \<not> accepts (commandArgs (Build versionCmdTemplate)) [''dir'']"
  by (simp add: Build_def createCmdTemplate_def cacheDeleteCmdTemplate_def versionCmdTemplate_def)

text \<open>
  C6, amended. Every command other than \<^verbatim>\<open>create\<close>, \<^verbatim>\<open>cache delete\<close> and
  \<^verbatim>\<open>version\<close>, that is all, break check, cache update, compile, files, format,
  generate, grpc, inspect packages, inspect package-deps, inspect package-importers, config
  init and lint, with the usage lines below, accepts an optional positional argument: no
  argument or one, and not two. When the argument is omitted the command works on the
  current working directory, with which \<^verbatim>\<open>getRunner\<close> creates its runner; when it is
  given the command works on the argument. \<^verbatim>\<open>create\<close> requires at least one argument;
  \<^verbatim>\<open>cache delete\<close> and \<^verbatim>\<open>version\<close> accept no positional argument.
\<close>

theorem positional_arguments_of_commands:
  "map (\<lambda>t. commandUse (Build t)) optionalArgCmdTemplates =
     [''all [dirOrFile]'', ''check [dir]'', ''update [dirOrFile]'', ''compile [dirOrFile]'',
      ''files [dirOrFile]'', ''format [dirOrFile]'', ''generate [dirOrFile]'',
      ''grpc [dirOrFile]'', ''packages [dirOrFile]'', ''package-deps [dirOrFile]'',
      ''package-importers [dirOrFile]'', ''init [dirPath]'', ''lint [dirOrFile]''] \<and>
   map (\<lambda>t. commandUse (Build t)) otherCmdTemplates =
     [''delete'', ''create files...'', ''version''] \<and>
   (\<forall>t \<in> set optionalArgCmdTemplates. \<forall>args fl develMode cwd.
      accepts (commandArgs (Build t)) args = (length args \<le> 1) \<and>
      (\<exists>r. getRunner develMode fl (Inr cwd :: 'e + string) = Inr r \<and>
           dirOrFile r (Run t [] fl) = Some cwd \<and>
           (\<forall>a. dirOrFile r (Run t [a] fl) = Some a))) \<and>
   (\<forall>args. accepts (commandArgs (Build createCmdTemplate)) args = (1 \<le> length args)) \<and>
   (\<forall>args. accepts (commandArgs (Build cacheDeleteCmdTemplate)) args = (args = [])) \<and>
   (\<forall>args. accepts (commandArgs (Build versionCmdTemplate)) args = (args = []))"
proof -
  have opt: "accepts (commandArgs (Build t)) args = (length args \<le> 1) \<and>
      (\<exists>r. getRunner develMode fl (Inr cwd :: 'e + string) = Inr r \<and>
           dirOrFile r (Run t [] fl) = Some cwd \<and>
           (\<forall>a. dirOrFile r (Run t [a] fl) = Some a))"
    if t: "t \<in> set optionalArgCmdTemplates" for t args fl develMode cwd
  proof -
    obtain r where r: "getRunner develMode fl (Inr cwd :: 'e + string) = Inr r" and w: "workDirPath r = cwd"
      using getRunner_workDirPath [of develMode fl cwd] by (elim exE conjE)
    have omitted: "dirOrFile r (Run t [] fl) = Some cwd"
      using optionalArg_dirOrFile(1) [OF t, of r fl] w by simp
    have given: "\<forall>a. dirOrFile r (Run t [a] fl) = Some a"
      using optionalArg_dirOrFile(2) [OF t] by simp
    have "\<exists>r. getRunner develMode fl (Inr cwd :: 'e + string) = Inr r \<and>
           dirOrFile r (Run t [] fl) = Some cwd \<and>
           (\<forall>a. dirOrFile r (Run t [a] fl) = Some a)"
      by (rule exI [of _ r]) (intro conjI r omitted given)
    with optionalArg_accepts [OF t, of args] show ?thesis
      by (rule conjI)
  qed
  have create: "accepts (commandArgs (Build createCmdTemplate)) args = (1 \<le> length args)"
    and delete: "accepts (commandArgs (Build cacheDeleteCmdTemplate)) args = (args = [])"
    and version: "accepts (commandArgs (Build versionCmdTemplate)) args = (args = [])" for args
    by (simp_all add: Build_def createCmdTemplate_def cacheDeleteCmdTemplate_def
        versionCmdTemplate_def)
  show ?thesis
    by (intro conjI ballI allI optionalArg_Uses other_Uses opt create delete version)
qed

theorem positional_arguments_of_commands_witness:
  "lintCmdTemplate \<in> set optionalArgCmdTemplates \<and>
   commandUse (Build lintCmdTemplate) = ''lint [dirOrFile]'' \<and>
   accepts (commandArgs (Build lintCmdTemplate)) [] \<and>
   accepts (commandArgs (Build lintCmdTemplate)) [''idl''] \<and>
   \<not> accepts (commandArgs (Build lintCmdTemplate)) [''idl'', ''proto''] \<and>
   (\<exists>r. getRunner False zeroFlags (Inr ''/repo'' :: unit + string) = Inr r \<and>
        dirOrFile r (Run lintCmdTemplate [] zeroFlags) = Some ''/repo'' \<and>
        (\<forall>a. dirOrFile r (Run lintCmdTemplate [a] zeroFlags) = Some a))"
proof -
  have m: "lintCmdTemplate \<in> set optionalArgCmdTemplates"
    by (simp add: optionalArgCmdTemplates_list)
  have u: "commandUse (Build lintCmdTemplate) = ''lint [dirOrFile]''"
    by (simp add: Build_def lintCmdTemplate_def)
  note ball = positional_arguments_of_commands [THEN conjunct2, THEN conjunct2, THEN conjunct1]
  note lint = ball [THEN bspec, OF m]
  have x: "accepts (commandArgs (Build lintCmdTemplate)) args = (length args \<le> 1)" for args
    using lint [THEN spec, of args, THEN spec, of zeroFlags, THEN spec, of False, THEN spec,
      of "''/repo''", THEN conjunct1] .
  have y: "\<exists>r. getRunner False zeroFlags (Inr ''/repo'' :: unit + string) = Inr r \<and>
        dirOrFile r (Run lintCmdTemplate [] zeroFlags) = Some ''/repo'' \<and>
        (\<forall>a. dirOrFile r (Run lintCmdTemplate [a] zeroFlags) = Some a)"
    using lint [THEN spec, of "[]", THEN spec, of zeroFlags, THEN spec, of False, THEN spec,
      of "''/repo''", THEN conjunct2] .
  have "accepts (commandArgs (Build lintCmdTemplate)) []"
    and "accepts (commandArgs (Build lintCmdTemplate)) [''idl'']"
    and "\<not> accepts (commandArgs (Build lintCmdTemplate)) [''idl'', ''proto'']"
    using x [of "[]"] x [of "[''idl'']"] x [of "[''idl'', ''proto'']"] by simp_all
  then show ?thesis
    by (intro conjI m u y)
qed

text \<open>
  C7. The runner that \<^verbatim>\<open>getRunner\<close> creates takes a non-empty
  \<^verbatim>\<open>--config-data\<close> string as the governing configuration, whatever the files on disk;
  with the empty string the on-disk resolution decides, unchanged.
\<close>

theorem config_data_overrides_disk:
  "getRunner develMode fl getwd = Inr r \<Longrightarrow>
     governingConfig r onDisk inline files path =
       (if configData fl \<noteq> [] then inline (configData fl) else onDisk files path)"
  by (simp add: governingConfig_def getRunner_configData)

theorem config_data_overrides_disk_witness:
  "(\<exists>r. getRunner False (zeroFlags\<lparr>configData := ''lint: {group: google}''\<rparr>) (Inr ''/repo'' :: unit + string) = Inr r \<and>
        governingConfig r (\<lambda>files path. files path) (\<lambda>d. d) (\<lambda>path. ''protoc: {version: 3.8.0}'') ''/repo/a.proto''
          = ''lint: {group: google}'') \<and>
   (\<exists>r. getRunner False zeroFlags (Inr ''/repo'' :: unit + string) = Inr r \<and>
        governingConfig r (\<lambda>files path. files path) (\<lambda>d. d) (\<lambda>path. ''protoc: {version: 3.8.0}'') ''/repo/a.proto''
          = ''protoc: {version: 3.8.0}'')"
proof -
  obtain r where r: "getRunner False (zeroFlags\<lparr>configData := ''lint: {group: google}''\<rparr>) (Inr ''/repo'' :: unit + string) = Inr r"
    using getRunner_total by blast
  obtain r' where r': "getRunner False zeroFlags (Inr ''/repo'' :: unit + string) = Inr r'"
    using getRunner_total by blast
  from config_data_overrides_disk [OF r] have g:
    "governingConfig r (\<lambda>files path. files path) (\<lambda>d. d) (\<lambda>path. ''protoc: {version: 3.8.0}'') ''/repo/a.proto''
       = ''lint: {group: google}''"
    by (simp add: zeroFlags_def)
  from config_data_overrides_disk [OF r'] have g':
    "governingConfig r' (\<lambda>files path. files path) (\<lambda>d. d) (\<lambda>path. ''protoc: {version: 3.8.0}'') ''/repo/a.proto''
       = ''protoc: {version: 3.8.0}''"
    by (simp add: zeroFlags_def)
  show ?thesis
  proof (rule conjI)
    show "\<exists>r. getRunner False (zeroFlags\<lparr>configData := ''lint: {group: google}''\<rparr>) (Inr ''/repo'' :: unit + string) = Inr r \<and>
        governingConfig r (\<lambda>files path. files path) (\<lambda>d. d) (\<lambda>path. ''protoc: {version: 3.8.0}'') ''/repo/a.proto''
          = ''lint: {group: google}''"
      by (rule exI [of _ r]) (rule conjI, rule r, rule g)
    show "\<exists>r. getRunner False zeroFlags (Inr ''/repo'' :: unit + string) = Inr r \<and>
        governingConfig r (\<lambda>files path. files path) (\<lambda>d. d) (\<lambda>path. ''protoc: {version: 3.8.0}'') ''/repo/a.proto''
          = ''protoc: {version: 3.8.0}''"
      by (rule exI [of _ r']) (rule conjI, rule r', rule g')
  qed
qed

end
